theory Spec2Isabelle
  imports Main
begin

section \<open>The HTTP checker of checkup: data model\<close>

text \<open>
  The checker lives in package \<open>http\<close> (\<open>Checker\<close>, \<open>Check\<close>, \<open>doChecks\<close>,
  \<open>conclude\<close>, \<open>checkDown\<close>, \<open>DefaultHTTPClient\<close>); the exporter's \<open>Send\<close> lives in
  package \<open>appinsights\<close>. A \<open>time.Duration\<close> is a signed count of nanoseconds; the
  checker only compares durations and copies them, so they are integers here. Go's
  \<open>int\<close> fields (\<open>Attempts\<close>, \<open>UpStatus\<close>, \<open>StatusCode\<close>) are integers too: the only
  arithmetic on them is the loop counter \<open>i++\<close> below \<open>c.Attempts\<close>, which cannot wrap.
\<close>

type_synonym Duration = int

text \<open>
  \<open>types.Attempt\<close>, \<open>types.Stats\<close> and \<open>types.Result\<close> are declared in package
  \<open>types\<close>, which is not among the sources; the records hold the fields the checker
  and the exporter read and write. The field \<open>ThresholdRTT\<close> of \<open>types.Result\<close> is
  \<open>Result_ThresholdRTT\<close>, since the checker has a field of the same name.
\<close>

record Attempt =
  RTT :: Duration
  Error :: string

record Stats =
  Median :: Duration
  Mean :: Duration

record Result =
  Title :: string
  Endpoint :: string
  Times :: "Attempt list"
  Result_ThresholdRTT :: Duration
  Stats :: Stats
  Healthy :: bool
  Degraded :: bool
  Down :: bool
  Notice :: string

subsection \<open>Checker configuration, client and transport\<close>

text \<open>
  A certificate pool is the list of its certificates. \<open>tls.Config\<close> has the two fields
  \<open>Check\<close> sets; \<open>RootCAs = None\<close> is the nil pool (the host's root set is used).
\<close>

type_synonym cert = string

record tlsConfig =
  InsecureSkipVerify :: bool
  RootCAs :: "cert list option"

text \<open>
  The closure \<open>dialer\<close> that \<open>Check\<close> installs as \<open>DialTLS\<close> captures \<open>c.URL\<close> and
  \<open>tlsConfig\<close>; it is the record of what it captures, and \<open>dial\<close> below is its body.
\<close>

record Dialer =
  dial_URL :: string
  dial_tlsConfig :: tlsConfig

record Transport =
  ProxyFromEnvironment :: bool
  DialTimeout :: Duration
  DialKeepAlive :: Duration
  TLSHandshakeTimeout :: Duration
  ExpectContinueTimeout :: Duration
  MaxIdleConnsPerHost :: int
  DisableCompression :: bool
  DisableKeepAlives :: bool
  ResponseHeaderTimeout :: Duration
  DialTLS :: "Dialer option"

text \<open>
  \<open>UseLastResponse\<close> stands for the \<open>CheckRedirect\<close> function of the default client,
  which returns \<open>http.ErrUseLastResponse\<close> on every redirect.
\<close>

record Client =
  Transport :: Transport
  UseLastResponse :: bool
  Timeout :: Duration

text \<open>
  \<open>Checker.Client\<close> is a pointer \<open>*http.Client\<close>: \<open>None\<close> is nil, \<open>Some a\<close> the
  client object at address \<open>a\<close> of the store. The package variable
  \<open>DefaultHTTPClient\<close> is the pointer to the object at address \<open>0\<close>.
  \<open>Headers\<close> is a Go map; \<open>None\<close> is the nil map, and the list gives the pairs in the
  order in which \<open>range\<close> visits them.
\<close>

type_synonym addr = nat

type_synonym store = "addr \<Rightarrow> Client"

record Checker =
  Name :: string
  URL :: string
  UpStatus :: int
  ThresholdRTT :: Duration
  MustContain :: string
  MustNotContain :: string
  Attempts :: int
  AttemptSpacing :: Duration
  TLSSkipVerify :: bool
  TLSCAFile :: string
  Client :: "addr option"
  Headers :: "(string \<times> string list) list option"

definition DefaultHTTPClient :: addr where
  "DefaultHTTPClient = 0"

definition second :: Duration where
  "second = 1000000000"

text \<open>The value the package variable is initialised with.\<close>

definition DefaultHTTPClient_init :: Client where
  "DefaultHTTPClient_init =
     \<lparr>Transport =
        \<lparr>ProxyFromEnvironment = True,
         DialTimeout = 10 * second,
         DialKeepAlive = 0,
         TLSHandshakeTimeout = 5 * second,
         ExpectContinueTimeout = 1 * second,
         MaxIdleConnsPerHost = 1,
         DisableCompression = True,
         DisableKeepAlives = True,
         ResponseHeaderTimeout = 5 * second,
         DialTLS = None\<rparr>,
      UseLastResponse = True,
      Timeout = 10 * second\<rparr>"

subsection \<open>Requests, responses and the environment\<close>

record url =
  url_Host :: string
  url_Port :: string

record Request =
  Method :: string
  req_URL :: string
  Host :: string
  Header :: "string \<Rightarrow> string list option"

text \<open>\<open>Body\<close> is what \<open>ioutil.ReadAll(resp.Body)\<close> gives: \<open>Inl\<close> the read error's text.\<close>

record Response =
  StatusCode :: int
  Status :: string
  Body :: "string + string"

datatype error =
  errReadingRootCert
  | errParsingRootCert
  | errParsingURL
  | errNewRequest string

text \<open>
  What the checker calls and does not define is a field of the environment:
  \<^item> \<open>ReadFile\<close>: \<open>ioutil.ReadFile\<close>, the pair of the data (\<open>None\<close> is the nil slice)
    and the error (\<open>None\<close> is nil);
  \<^item> \<open>SystemCertPool\<close>: the pool of \<open>x509.SystemCertPool\<close>, \<open>None\<close> when it is nil;
  \<^item> \<open>decodePEM\<close>: the certificates that \<open>AppendCertsFromPEM\<close> parses out of the data;
  \<^item> \<open>ParseURL\<close>: \<open>url.Parse\<close>, \<open>Inl\<close> its error's text;
  \<^item> \<open>CanonicalHeaderKey\<close>: the key under which \<open>http.Header.Add\<close> stores a name;
  \<^item> \<open>Do\<close>: the outcome of the \<open>k\<close>-th call of \<open>c.Client.Do\<close> of an invocation,
    \<open>Inl\<close> the transport error's text; \<open>Since\<close>: the time measured around that call;
  \<^item> \<open>ComputeStats\<close>: \<open>types.Result.ComputeStats\<close>, and \<open>NewResult\<close>: the value of
    \<open>types.NewResult()\<close>, both of package \<open>types\<close>;
  \<^item> \<open>DurationString\<close>: \<open>time.Duration.String\<close>.
\<close>

record env =
  ReadFile :: "string \<Rightarrow> string option \<times> string option"
  SystemCertPool :: "cert list option"
  decodePEM :: "string \<Rightarrow> cert list"
  ParseURL :: "string \<Rightarrow> string + url"
  CanonicalHeaderKey :: "string \<Rightarrow> string"
  Do :: "nat \<Rightarrow> Client \<Rightarrow> Request \<Rightarrow> string + Response"
  Since :: "nat \<Rightarrow> Duration"
  ComputeStats :: "Result \<Rightarrow> Stats"
  DurationString :: "Duration \<Rightarrow> string"
  NewResult :: Result

text \<open>The effects of an invocation that the outside can see, in the order they happen.\<close>

datatype event =
  EvDo nat
  | EvClose nat
  | EvSleep Duration

text \<open>\<open>Check\<close> returns its pair of result and error, or panics.\<close>

datatype outcome =
  Return Result "error option"
  | Panic

section \<open>The operations\<close>

subsection \<open>Library functions the checker uses\<close>

text \<open>
  \<open>strings.ToLower\<close> on the ASCII letters. No character outside \<open>A\<close> to \<open>Z\<close> has a
  letter of \<open>host\<close> as its lower case, so the comparison with \<open>host\<close> in \<open>Check\<close> is the
  same for every key.
\<close>

definition toLower_char :: "char \<Rightarrow> char" where
  "toLower_char ch =
     (if 65 \<le> (of_char ch :: nat) \<and> (of_char ch :: nat) \<le> 90
      then char_of ((of_char ch :: nat) + 32) else ch)"

definition ToLower :: "string \<Rightarrow> string" where
  "ToLower s = map toLower_char s"

text \<open>\<open>strings.Join\<close> and \<open>strings.Contains\<close>.\<close>

fun Join :: "string list \<Rightarrow> string \<Rightarrow> string" where
  "Join [] sep = []"
| "Join [x] sep = x"
| "Join (x # y # ys) sep = x @ sep @ Join (y # ys) sep"

fun Contains :: "string \<Rightarrow> string \<Rightarrow> bool" where
  "Contains [] substr = (substr = [])"
| "Contains (x # xs) substr =
     (take (length substr) (x # xs) = substr \<or> Contains xs substr)"

text \<open>The verb \<open>%d\<close> of \<open>fmt.Sprintf\<close> on a length, which is never negative.\<close>

definition digits :: string where
  "digits = ''0123456789''"

function fmt_d :: "nat \<Rightarrow> string" where
  "fmt_d n =
     (if n < 10 then [digits ! n]
      else fmt_d (n div 10) @ [digits ! (n mod 10)])"
  by pat_completeness auto
termination
  by (relation "measure (\<lambda>n. n)") auto

declare fmt_d.simps [simp del]

text \<open>
  \<open>http.Header.Add\<close> appends the value to the values stored under the canonical key.
\<close>

definition Header_Add ::
  "env \<Rightarrow> (string \<Rightarrow> string list option) \<Rightarrow> string \<Rightarrow> string \<Rightarrow> (string \<Rightarrow> string list option)"
where
  "Header_Add env h key v =
     (let k = CanonicalHeaderKey env key
      in h(k \<mapsto> (case h k of None \<Rightarrow> [v] | Some vs \<Rightarrow> vs @ [v])))"

text \<open>
  \<open>x509.NewCertPool\<close> is the empty pool; \<open>AppendCertsFromPEM\<close> appends the certificates
  it finds in the data and reports whether it found one.
\<close>

definition NewCertPool :: "cert list" where
  "NewCertPool = []"

definition AppendCertsFromPEM :: "env \<Rightarrow> cert list \<Rightarrow> string \<Rightarrow> cert list \<times> bool" where
  "AppendCertsFromPEM env pool pemCerts =
     (pool @ decodePEM env pemCerts, decodePEM env pemCerts \<noteq> [])"

text \<open>
  \<open>http.NewRequest\<close> with a valid method and a nil body fails only when \<open>url.Parse\<close>
  does; the request starts with the host of the parsed URL and no header.
\<close>

definition NewRequest :: "env \<Rightarrow> string \<Rightarrow> string \<Rightarrow> error + Request" where
  "NewRequest env method u =
     (case ParseURL env u of
        Inl e \<Rightarrow> Inl (errNewRequest e)
      | Inr parsed \<Rightarrow>
          Inr \<lparr>Method = method, req_URL = u, Host = url_Host parsed, Header = Map.empty\<rparr>)"

subsection \<open>\<open>checkDown\<close>\<close>

text \<open>The result is the text of the error, \<open>None\<close> for the nil error.\<close>

definition checkDown :: "Checker \<Rightarrow> Response \<Rightarrow> string option" where
  "checkDown c resp =
     (if StatusCode resp \<noteq> UpStatus c then Some (''response status '' @ Status resp)
      else if MustContain c = '''' \<and> MustNotContain c = '''' then None
      else
        (case Body resp of
           Inl err \<Rightarrow> Some (''reading response body: '' @ err)
         | Inr body \<Rightarrow>
             if MustContain c \<noteq> '''' \<and> \<not> Contains body (MustContain c)
             then Some (''response does not contain '' @ [CHR 0x27] @ MustContain c @ [CHR 0x27])
             else if MustNotContain c \<noteq> '''' \<and> Contains body (MustNotContain c)
             then Some (''response contains '' @ [CHR 0x27] @ MustNotContain c @ [CHR 0x27])
             else None))"

subsection \<open>\<open>doChecks\<close>\<close>

text \<open>
  The loop of \<open>doChecks\<close>, from counter \<open>i\<close>: \<open>cl\<close> is the client \<open>c.Client\<close> points to,
  \<open>checks\<close> the slice and \<open>tr\<close> the events so far. A transport error takes the
  \<open>continue\<close>: the body is not closed and nothing sleeps.
\<close>

function doChecks_loop ::
  "env \<Rightarrow> Checker \<Rightarrow> Client \<Rightarrow> Request \<Rightarrow> int \<Rightarrow> Attempt list \<Rightarrow> event list
     \<Rightarrow> Attempt list \<times> event list"
where
  "doChecks_loop env c cl req i checks tr =
     (if i < Attempts c then
        (let k = nat i;
             tr1 = tr @ [EvDo k];
             checks1 = checks[k := (checks ! k)\<lparr>RTT := Since env k\<rparr>]
         in case Do env k cl req of
              Inl err \<Rightarrow>
                doChecks_loop env c cl req (i + 1)
                  (checks1[k := (checks1 ! k)\<lparr>Error := err\<rparr>]) tr1
            | Inr resp \<Rightarrow>
                (let checks2 =
                       (case checkDown c resp of
                          Some err \<Rightarrow> checks1[k := (checks1 ! k)\<lparr>Error := err\<rparr>]
                        | None \<Rightarrow> checks1);
                     tr2 = tr1 @ [EvClose k];
                     tr3 = (if AttemptSpacing c > 0
                            then tr2 @ [EvSleep (AttemptSpacing c)] else tr2)
                 in doChecks_loop env c cl req (i + 1) checks2 tr3))
      else (checks, tr))"
  by pat_completeness auto
termination
  by (relation "measure (\<lambda>(env, c, cl, req, i, checks, tr). nat (Attempts c - i))") auto

declare doChecks_loop.simps [simp del]

text \<open>
  \<open>None\<close> is a panic: \<open>make\<close> with a negative length, or the call of \<open>Do\<close> through a
  nil \<open>c.Client\<close>. \<open>Check\<close> calls \<open>doChecks\<close> with neither.
\<close>

definition doChecks ::
  "env \<Rightarrow> Checker \<Rightarrow> store \<Rightarrow> Request \<Rightarrow> (Attempt list \<times> event list) option"
where
  "doChecks env c st req =
     (if Attempts c < 0 then None
      else
        (case Client c of
           None \<Rightarrow> if Attempts c = 0 then Some ([], []) else None
         | Some a \<Rightarrow>
             Some (doChecks_loop env c (st a) req 0
                     (replicate (nat (Attempts c)) \<lparr>RTT = 0, Error = ''''\<rparr>) [])))"

subsection \<open>\<open>conclude\<close>\<close>

text \<open>The first loop of \<open>conclude\<close>: whether it reaches an attempt with an error.\<close>

fun conclude_errors :: "Attempt list \<Rightarrow> bool" where
  "conclude_errors [] = False"
| "conclude_errors (a # as) = (if Error a \<noteq> '''' then True else conclude_errors as)"

definition conclude :: "env \<Rightarrow> Checker \<Rightarrow> Result \<Rightarrow> Result" where
  "conclude env c result0 =
     (let result = result0\<lparr>Result_ThresholdRTT := ThresholdRTT c\<rparr>
      in if conclude_errors (Times result) then result\<lparr>Down := True\<rparr>
         else if ThresholdRTT c > 0 then
           (let result1 = result\<lparr>Stats := ComputeStats env result\<rparr>
            in if Median (Stats result1) > ThresholdRTT c
               then result1\<lparr>Notice := ''median round trip time exceeded threshold (''
                                         @ DurationString env (ThresholdRTT c) @ '')'',
                             Degraded := True\<rparr>
               else result1\<lparr>Healthy := True\<rparr>)
         else result\<lparr>Healthy := True\<rparr>)"

subsection \<open>\<open>Check\<close>\<close>

text \<open>
  The TLS configuration that \<open>Check\<close> assembles when the checker has no client: the
  skip-verify flag, then the pool read from the CA file.
\<close>

definition Check_tlsConfig :: "env \<Rightarrow> Checker \<Rightarrow> error + tlsConfig" where
  "Check_tlsConfig env c =
     (let tlsConfig0 = \<lparr>InsecureSkipVerify = False, RootCAs = None\<rparr>;
          tlsConfig = (if TLSSkipVerify c
                       then tlsConfig0\<lparr>InsecureSkipVerify := TLSSkipVerify c\<rparr>
                       else tlsConfig0)
      in if TLSCAFile c \<noteq> '''' then
           (case ReadFile env (TLSCAFile c) of
              (rootPEM, err) \<Rightarrow>
                if err \<noteq> None \<or> rootPEM = None then Inl errReadingRootCert
                else
                  (let pool = (case SystemCertPool env of
                                 None \<Rightarrow> NewCertPool
                               | Some sys \<Rightarrow> sys)
                   in case AppendCertsFromPEM env pool (the rootPEM) of
                        (pool1, ok) \<Rightarrow>
                          if \<not> ok then Inl errParsingRootCert
                          else Inr (tlsConfig\<lparr>RootCAs := Some pool1\<rparr>)))
         else Inr tlsConfig)"

text \<open>
  The body of the closure \<open>dialer\<close>: the timeout of its \<open>net.Dialer\<close>, the network,
  the address and the configuration it hands to \<open>tls.DialWithDialer\<close>.
\<close>

definition dial :: "env \<Rightarrow> Dialer \<Rightarrow> error + (Duration \<times> string \<times> string \<times> tlsConfig)" where
  "dial env d =
     (case ParseURL env (dial_URL d) of
        Inl e \<Rightarrow> Inl errParsingURL
      | Inr u \<Rightarrow>
          (let port = (if url_Port u = '''' then ''443'' else url_Port u);
               addr = url_Host u @ '':'' @ port
           in Inr (5 * second, ''tcp'', addr, dial_tlsConfig d)))"

text \<open>\<open>Transport.Clone\<close> gives a new transport with the same fields.\<close>

definition Clone :: "Transport \<Rightarrow> Transport" where
  "Clone t = t"

text \<open>
  The block \<open>if c.Client == nil\<close> of \<open>Check\<close>. The assignment
  \<open>c.Client.Transport = tr\<close> goes through the pointer, so it writes the store.
\<close>

definition Check_client :: "env \<Rightarrow> Checker \<Rightarrow> store \<Rightarrow> error + (Checker \<times> store)" where
  "Check_client env c st =
     (case Client c of
        Some a \<Rightarrow> Inr (c, st)
      | None \<Rightarrow>
          (let c1 = c\<lparr>Client := Some DefaultHTTPClient\<rparr>
           in case Check_tlsConfig env c1 of
                Inl err \<Rightarrow> Inl err
              | Inr tlsConfig \<Rightarrow>
                  (let dialer = \<lparr>dial_URL = URL c1, dial_tlsConfig = tlsConfig\<rparr>;
                       tr = (Clone (Transport (st DefaultHTTPClient)))\<lparr>DialTLS := Some dialer\<rparr>
                   in Inr (c1, st(DefaultHTTPClient :=
                                    (st DefaultHTTPClient)\<lparr>Transport := tr\<rparr>)))))"

text \<open>
  The loop over \<open>c.Headers\<close>. \<open>None\<close> is the panic of \<open>header[0]\<close> on a header named
  \<open>host\<close> that has no value.
\<close>

fun Check_headers :: "env \<Rightarrow> (string \<times> string list) list \<Rightarrow> Request \<Rightarrow> Request option" where
  "Check_headers env [] req = Some req"
| "Check_headers env ((key, header) # rest) req =
     (let req1 = req\<lparr>Header := Header_Add env (Header req) key (Join header '', '')\<rparr>
      in if ToLower key = ''host'' then
           (case header of
              [] \<Rightarrow> None
            | h # hs \<Rightarrow> Check_headers env rest (req1\<lparr>Host := h\<rparr>))
         else Check_headers env rest req1)"

text \<open>
  \<open>Check\<close> from a store: the outcome, the store it leaves and the events. The
  receiver is a copy, so the assignments to \<open>c\<close> stay local.
\<close>

definition Check :: "env \<Rightarrow> Checker \<Rightarrow> store \<Rightarrow> outcome \<times> store \<times> event list" where
  "Check env c0 st =
     (let result = (NewResult env)\<lparr>Title := Name c0, Endpoint := URL c0\<rparr>;
          c1 = (if Attempts c0 < 1 then c0\<lparr>Attempts := 1\<rparr> else c0)
      in case Check_client env c1 st of
           Inl err \<Rightarrow> (Return result (Some err), st, [])
         | Inr (c2, st2) \<Rightarrow>
             (let c3 = (if UpStatus c2 = 0 then c2\<lparr>UpStatus := 200\<rparr> else c2)
              in case NewRequest env ''GET'' (URL c3) of
                   Inl err \<Rightarrow> (Return result (Some err), st2, [])
                 | Inr req \<Rightarrow>
                     (case (case Headers c3 of
                              None \<Rightarrow> Some req
                            | Some hs \<Rightarrow> Check_headers env hs req) of
                        None \<Rightarrow> (Panic, st2, [])
                      | Some req1 \<Rightarrow>
                          (case doChecks env c3 st2 req1 of
                             None \<Rightarrow> (Panic, st2, [])
                           | Some (checks, tr) \<Rightarrow>
                               (Return (conclude env c3 (result\<lparr>Times := checks\<rparr>)) None,
                                st2, tr)))))"

subsection \<open>The exporter's \<open>Send\<close>\<close>

record Exporter =
  InstrumentationKey :: string
  TestName :: string
  TestLocation :: string

record AvailabilityTelemetry =
  av_Name :: string
  av_Duration :: Duration
  av_Success :: bool
  RunLocation :: string
  Message :: string

text \<open>The telemetry item that \<open>Send\<close> hands to \<open>TelemetryClient.Track\<close>.\<close>

definition Send :: "env \<Rightarrow> Exporter \<Rightarrow> Result \<Rightarrow> AvailabilityTelemetry" where
  "Send env e r =
     (let attempts = length (Times r);
          message0 = Notice r;
          message =
            (if Degraded r \<or> Down r then
               (let rtts = map (\<lambda>a. DurationString env (RTT a)) (Times r)
                in message0 @ '' - Number of attempts = '' @ fmt_d attempts
                     @ '' ('' @ Join rtts '' '' @ '')'')
             else message0)
      in \<lparr>av_Name = Title r, av_Duration = Mean (Stats r), av_Success = Healthy r,
          RunLocation = TestLocation e, Message = message\<rparr>)"

section \<open>Predicates of the specification\<close>

text \<open>A result that no one has classified yet: none of the three flags is set.\<close>

definition unclassified :: "Result \<Rightarrow> bool" where
  "unclassified r = (\<not> Healthy r \<and> \<not> Degraded r \<and> \<not> Down r)"

text \<open>An attempt failed when its failure description is not empty.\<close>

definition failed :: "Attempt \<Rightarrow> bool" where
  "failed a = (Error a \<noteq> '''')"

text \<open>Exactly one of three flags.\<close>

definition exactly_one :: "bool \<Rightarrow> bool \<Rightarrow> bool \<Rightarrow> bool" where
  "exactly_one a b c = ((a \<and> \<not> b \<and> \<not> c) \<or> (\<not> a \<and> b \<and> \<not> c) \<or> (\<not> a \<and> \<not> b \<and> c))"

section \<open>A concrete environment\<close>

text \<open>
  Modelled from the spec: \<open>types.Result.ComputeStats\<close> is not among the sources. The
  specification asks for the simple numeric median of the recorded durations and leaves
  the even count to the implementation; this one takes the lower of the middle two, and
  the truncated average as the mean. It is used at concrete inputs only.
\<close>

definition median_stats :: "Result \<Rightarrow> Stats" where
  "median_stats r =
     (let xs = sort (map RTT (Times r))
      in if xs = [] then \<lparr>Median = 0, Mean = 0\<rparr>
         else \<lparr>Median = xs ! ((length xs - 1) div 2),
               Mean = sum_list xs div int (length xs)\<rparr>)"

text \<open>
  Modelled from the spec: \<open>types.NewResult\<close> is not among the sources. The verdict is
  created fresh on each invocation: no attempt, no flag, no notice.
\<close>

definition fresh_result :: Result where
  "fresh_result =
     \<lparr>Title = '''', Endpoint = '''', Times = [], Result_ThresholdRTT = 0,
      Stats = \<lparr>Median = 0, Mean = 0\<rparr>, Healthy = False, Degraded = False, Down = False,
      Notice = ''''\<rparr>"

definition ok_response :: Response where
  "ok_response = \<lparr>StatusCode = 200, Status = ''200 OK'', Body = Inr ''OK''\<rparr>"

text \<open>
  One file that holds a certificate, one that holds none, no other file; one URL that
  parses; every request answered with \<open>200 OK\<close> after 50 ms; durations printed in
  whole milliseconds.
\<close>

definition example_env :: env where
  "example_env =
     \<lparr>ReadFile = (\<lambda>p. if p = ''ca.pem'' then (Some ''PEM'', None)
                       else if p = ''junk.pem'' then (Some ''junk'', None)
                       else (None, Some ''no such file'')),
      SystemCertPool = Some [''root''],
      decodePEM = (\<lambda>d. if d = ''PEM'' then [''ca''] else []),
      ParseURL = (\<lambda>u. if u = ''https://example.org''
                       then Inr \<lparr>url_Host = ''example.org'', url_Port = ''''\<rparr>
                       else Inl ''invalid URL''),
      CanonicalHeaderKey = (\<lambda>k. if ToLower k = ''host'' then ''Host'' else k),
      Do = (\<lambda>k cl req. Inr ok_response),
      Since = (\<lambda>k. 50000000),
      ComputeStats = median_stats,
      DurationString = (\<lambda>d. fmt_d (nat (d div 1000000)) @ ''ms''),
      NewResult = fresh_result\<rparr>"

definition example_checker :: Checker where
  "example_checker =
     \<lparr>Name = ''site'', URL = ''https://example.org'', UpStatus = 0,
      ThresholdRTT = 200000000, MustContain = '''', MustNotContain = '''',
      Attempts = 3, AttemptSpacing = 0, TLSSkipVerify = False, TLSCAFile = '''',
      Client = None, Headers = None\<rparr>"

definition example_store :: store where
  "example_store = (\<lambda>a. DefaultHTTPClient_init)"

subsection \<open>Concrete results and checkers\<close>

text \<open>Two attempts, the second refused; one slow attempt that succeeded.\<close>

definition failing_result :: Result where
  "failing_result =
     fresh_result\<lparr>Times := [\<lparr>RTT = 50000000, Error = ''''\<rparr>,
                             \<lparr>RTT = 700000000, Error = ''connection refused''\<rparr>]\<rparr>"

definition slow_result :: Result where
  "slow_result = fresh_result\<lparr>Times := [\<lparr>RTT = 500000000, Error = ''''\<rparr>]\<rparr>"


definition example_exporter :: Exporter where
  "example_exporter =
     \<lparr>InstrumentationKey = ''key'', TestName = ''test'', TestLocation = ''here''\<rparr>"

section \<open>What an invocation does, said directly\<close>

text \<open>
  The record of the \<open>k\<close>-th attempt: the time measured around the \<open>k\<close>-th call of \<open>Do\<close>,
  and the text of the transport error or of the error of \<open>checkDown\<close>, empty when both are
  nil. And the events of the \<open>k\<close>-th attempt.
\<close>

definition attempt_record :: "env \<Rightarrow> Checker \<Rightarrow> Client \<Rightarrow> Request \<Rightarrow> nat \<Rightarrow> Attempt" where
  "attempt_record env c cl req k =
     \<lparr>RTT = Since env k,
      Error = (case Do env k cl req of
                 Inl err \<Rightarrow> err
               | Inr resp \<Rightarrow> (case checkDown c resp of None \<Rightarrow> '''' | Some err \<Rightarrow> err))\<rparr>"

definition attempt_events :: "env \<Rightarrow> Checker \<Rightarrow> Client \<Rightarrow> Request \<Rightarrow> nat \<Rightarrow> event list" where
  "attempt_events env c cl req k =
     (case Do env k cl req of
        Inl err \<Rightarrow> [EvDo k]
      | Inr resp \<Rightarrow>
          if AttemptSpacing c > 0 then [EvDo k, EvClose k, EvSleep (AttemptSpacing c)]
          else [EvDo k, EvClose k])"

text \<open>The address of the client that the requests of \<open>Check\<close> go through.\<close>

definition the_client :: "Checker \<Rightarrow> addr" where
  "the_client c = (case Client c of None \<Rightarrow> DefaultHTTPClient | Some a \<Rightarrow> a)"

text \<open>
  The store in which the transport of the object at \<open>DefaultHTTPClient\<close> has been given
  the dialer for URL \<open>u\<close> and configuration \<open>cfg\<close>.
\<close>

definition installed :: "string \<Rightarrow> tlsConfig \<Rightarrow> store \<Rightarrow> store" where
  "installed u cfg st =
     st(DefaultHTTPClient :=
          (st DefaultHTTPClient)\<lparr>Transport :=
             (Transport (st DefaultHTTPClient))\<lparr>DialTLS :=
                Some \<lparr>dial_URL = u, dial_tlsConfig = cfg\<rparr>\<rparr>\<rparr>)"

text \<open>
  The error on which the client block of \<open>Check\<close> returns, if any, and the store that
  the block leaves.
\<close>

definition client_error :: "env \<Rightarrow> Checker \<Rightarrow> error option" where
  "client_error env c =
     (case Client c of
        Some a \<Rightarrow> None
      | None \<Rightarrow> (case Check_tlsConfig env c of Inl err \<Rightarrow> Some err | Inr cfg \<Rightarrow> None))"

definition after_client :: "env \<Rightarrow> Checker \<Rightarrow> store \<Rightarrow> store" where
  "after_client env c st =
     (case Client c of
        Some a \<Rightarrow> st
      | None \<Rightarrow> (case Check_tlsConfig env c of
                   Inl err \<Rightarrow> st
                 | Inr cfg \<Rightarrow> installed (URL c) cfg st))"

text \<open>The request that \<open>Check\<close> builds from the parsed URL and the configured headers.\<close>

definition built_request :: "env \<Rightarrow> Checker \<Rightarrow> url \<Rightarrow> Request option" where
  "built_request env c u =
     (let req = \<lparr>Method = ''GET'', req_URL = URL c, Host = url_Host u, Header = Map.empty\<rparr>
      in case Headers c of None \<Rightarrow> Some req | Some hs \<Rightarrow> Check_headers env hs req)"

text \<open>The checker with the default of \<open>UpStatus\<close>, and with all three defaults.\<close>

definition with_UpStatus :: "Checker \<Rightarrow> Checker" where
  "with_UpStatus c = (if UpStatus c = 0 then c\<lparr>UpStatus := 200\<rparr> else c)"

definition prepared :: "Checker \<Rightarrow> Checker" where
  "prepared c =
     with_UpStatus
       ((if Attempts c < 1 then c\<lparr>Attempts := 1\<rparr> else c)\<lparr>Client := Some (the_client c)\<rparr>)"

text \<open>The result as \<open>Check\<close> has it before the first return.\<close>

definition started :: "env \<Rightarrow> Checker \<Rightarrow> Result" where
  "started env c = (NewResult env)\<lparr>Title := Name c, Endpoint := URL c\<rparr>"

subsection \<open>Concrete invocations\<close>

definition example_verdict :: Result where
  "example_verdict =
     \<lparr>Title = ''site'', Endpoint = ''https://example.org'',
      Times = [\<lparr>RTT = 50000000, Error = ''''\<rparr>, \<lparr>RTT = 50000000, Error = ''''\<rparr>,
               \<lparr>RTT = 50000000, Error = ''''\<rparr>],
      Result_ThresholdRTT = 200000000,
      Stats = \<lparr>Median = 50000000, Mean = 50000000\<rparr>,
      Healthy = True, Degraded = False, Down = False, Notice = ''''\<rparr>"

definition example_request :: Request where
  "example_request =
     \<lparr>Method = ''GET'', req_URL = ''https://example.org'', Host = ''example.org'',
      Header = Map.empty\<rparr>"

text \<open>One attempt, one second of spacing, the default client given explicitly.\<close>

definition spaced_checker :: Checker where
  "spaced_checker =
     example_checker\<lparr>UpStatus := 200, Attempts := 1, AttemptSpacing := 1000000000,
                      Client := Some DefaultHTTPClient\<rparr>"

definition bad_url_checker :: Checker where
  "bad_url_checker = example_checker\<lparr>URL := ''https://exa mple.org''\<rparr>"

definition missing_ca_checker :: Checker where
  "missing_ca_checker = example_checker\<lparr>TLSCAFile := ''missing.pem''\<rparr>"

definition junk_ca_checker :: Checker where
  "junk_ca_checker = example_checker\<lparr>TLSCAFile := ''junk.pem''\<rparr>"

definition ca_checker :: Checker where
  "ca_checker = example_checker\<lparr>TLSCAFile := ''ca.pem''\<rparr>"

section \<open>The verdict: \<open>conclude\<close>\<close>

lemma conclude_errors_iff: "conclude_errors ts \<longleftrightarrow> (\<exists>a\<in>set ts. failed a)"
  by (induction ts) (auto simp: failed_def)

lemma unclassified_failing_result: "unclassified failing_result"
  by (simp add: unclassified_def failing_result_def fresh_result_def)

lemma unclassified_slow_result: "unclassified slow_result"
  by (simp add: unclassified_def slow_result_def fresh_result_def)


text \<open>
  C1. \<open>Check\<close> hands \<open>conclude\<close> a result whose flags are still clear. For every such
  result, every checker and every environment, the verdict is down if and only if
  some attempt has a non-empty failure description. When one has, the verdict is
  neither degraded nor healthy, its statistics are the ones handed in, and the verdict
  is the same whatever \<open>ComputeStats\<close> is: the median is not looked at.
\<close>

theorem conclude_down_iff_failed:
  assumes "unclassified r"
  shows "(Down (conclude env c r) \<longleftrightarrow> (\<exists>a\<in>set (Times r). failed a))
       \<and> ((\<exists>a\<in>set (Times r). failed a) \<longrightarrow>
             \<not> Degraded (conclude env c r) \<and> \<not> Healthy (conclude env c r)
           \<and> Stats (conclude env c r) = Stats r
           \<and> conclude (env\<lparr>ComputeStats := cs\<rparr>) c r = conclude env c r)"
  using assms by (auto simp: conclude_def Let_def unclassified_def conclude_errors_iff)

theorem conclude_down_iff_failed_witness:
  "unclassified failing_result
   \<and> (\<exists>a\<in>set (Times failing_result). failed a)
   \<and> Down (conclude example_env example_checker failing_result)
   \<and> \<not> Degraded (conclude example_env example_checker failing_result)
   \<and> \<not> Healthy (conclude example_env example_checker failing_result)"
proof -
  have u: "unclassified failing_result"
    by (rule unclassified_failing_result)
  have f: "\<exists>a\<in>set (Times failing_result). failed a"
    by (simp add: failing_result_def failed_def)
  show ?thesis
    using u f conclude_down_iff_failed [OF u, of example_env example_checker] by blast
qed




text \<open>
  C3. For every result whose flags are clear when \<open>conclude\<close> receives it, every
  checker and every environment, exactly one of healthy, degraded and down is set in
  the verdict.
\<close>

theorem conclude_exactly_one_flag:
  assumes "unclassified r"
  shows "exactly_one (Healthy (conclude env c r)) (Degraded (conclude env c r))
           (Down (conclude env c r))"
  using assms by (auto simp: conclude_def Let_def unclassified_def exactly_one_def)

theorem conclude_exactly_one_flag_witness:
  "unclassified slow_result
   \<and> exactly_one (Healthy (conclude example_env example_checker slow_result))
        (Degraded (conclude example_env example_checker slow_result))
        (Down (conclude example_env example_checker slow_result))"
proof -
  have u: "unclassified slow_result"
    by (rule unclassified_slow_result)
  show ?thesis
    using u conclude_exactly_one_flag [OF u, of example_env example_checker] by simp
qed

text \<open>
  C9 as stated fails: the verdict of two attempts, the second refused, is down and its
  notice is empty.
\<close>

theorem conclude_down_notice_counterexample:
  "Down (conclude example_env example_checker failing_result)
   \<and> Notice (conclude example_env example_checker failing_result) = ''''"
  by (simp add: conclude_def Let_def failing_result_def fresh_result_def)

text \<open>
  C9, as the code has it. A degraded verdict carries the non-empty notice that names
  the threshold. A down verdict carries the notice that \<open>conclude\<close> was handed, which
  \<open>conclude\<close> does not write. The summary of the attempt count and of the round-trip
  time of each attempt is the message that the exporter's \<open>Send\<close> builds for a verdict
  that is degraded or down: the notice, then the number of attempts, then the
  round-trip times separated by blanks; it is never empty.
\<close>

theorem unhealthy_notice_and_message:
  assumes "unclassified r"
  shows "(Degraded (conclude env c r) \<longrightarrow>
            Notice (conclude env c r) \<noteq> ''''
          \<and> Notice (conclude env c r) =
              ''median round trip time exceeded threshold (''
                @ DurationString env (ThresholdRTT c) @ '')'')
       \<and> (Down (conclude env c r) \<longrightarrow> Notice (conclude env c r) = Notice r)
       \<and> (Degraded (conclude env c r) \<or> Down (conclude env c r) \<longrightarrow>
            Message (Send env e (conclude env c r)) \<noteq> ''''
          \<and> Message (Send env e (conclude env c r)) =
              Notice (conclude env c r) @ '' - Number of attempts = ''
                @ fmt_d (length (Times r)) @ '' (''
                @ Join (map (\<lambda>a. DurationString env (RTT a)) (Times r)) '' '' @ '')'')"
  using assms by (auto simp: conclude_def Let_def unclassified_def Send_def)

theorem unhealthy_notice_and_message_witness:
  "unclassified failing_result
   \<and> Down (conclude example_env example_checker failing_result)
   \<and> Notice (conclude example_env example_checker failing_result) = ''''
   \<and> Message (Send example_env example_exporter
                (conclude example_env example_checker failing_result))
       = '' - Number of attempts = 2 (50ms 700ms)''"
proof -
  have u: "unclassified failing_result"
    by (rule unclassified_failing_result)
  have d: "Down (conclude example_env example_checker failing_result)"
    by (simp add: conclude_def Let_def failing_result_def fresh_result_def)
  have n: "Notice failing_result = ''''"
    by (simp add: failing_result_def fresh_result_def)
  have t: "Times failing_result = [\<lparr>RTT = 50000000, Error = ''''\<rparr>,
                             \<lparr>RTT = 700000000, Error = ''connection refused''\<rparr>]"
    by (simp add: failing_result_def)
  have s: "fmt_d 2 = ''2''" "fmt_d 50 = ''50''" "fmt_d 700 = ''700''"
    by (simp_all add: fmt_d.simps digits_def)
  have j: "Join (map (\<lambda>a. DurationString example_env (RTT a)) (Times failing_result)) '' ''
             = ''50ms 700ms''"
    by (simp add: t example_env_def s)
  have l: "fmt_d (length (Times failing_result)) = ''2''"
    by (simp add: t fmt_d.simps digits_def)
  note th = unhealthy_notice_and_message [OF u, of example_env example_checker example_exporter]
  have nt: "Notice (conclude example_env example_checker failing_result) = ''''"
    using th d n by simp
  have "Message (Send example_env example_exporter
                  (conclude example_env example_checker failing_result))
          = Notice (conclude example_env example_checker failing_result)
              @ '' - Number of attempts = '' @ fmt_d (length (Times failing_result)) @ '' (''
              @ Join (map (\<lambda>a. DurationString example_env (RTT a)) (Times failing_result)) '' ''
              @ '')''"
    using th d by blast
  then have msg: "Message (Send example_env example_exporter
                  (conclude example_env example_checker failing_result))
          = '' - Number of attempts = 2 (50ms 700ms)''"
    unfolding nt j l by simp
  from u d nt msg show ?thesis
    by blast
qed

section \<open>The attempts: \<open>doChecks\<close>\<close>

lemma doChecks_loop_done:
  "\<not> i < Attempts c \<Longrightarrow> doChecks_loop env c cl req i checks tr = (checks, tr)"
  by (subst doChecks_loop.simps) simp

lemma doChecks_loop_step:
  assumes "i < Attempts c" and "0 \<le> i" and "nat i < length checks"
    and "checks ! nat i = \<lparr>RTT = 0, Error = ''''\<rparr>"
  shows "doChecks_loop env c cl req i checks tr =
           doChecks_loop env c cl req (i + 1)
             (checks[nat i := attempt_record env c cl req (nat i)])
             (tr @ attempt_events env c cl req (nat i))"
  using assms
  by (subst doChecks_loop.simps)
     (simp add: Let_def attempt_record_def attempt_events_def split: sum.splits option.splits)

lemma doChecks_loop_result:
  assumes "nat (Attempts c - i) = n" and "0 \<le> i"
    and "length checks = nat (Attempts c)"
    and "\<forall>k. nat i \<le> k \<and> k < nat (Attempts c) \<longrightarrow> checks ! k = \<lparr>RTT = 0, Error = ''''\<rparr>"
  shows "doChecks_loop env c cl req i checks tr =
           (take (nat i) checks @ map (attempt_record env c cl req) [nat i ..< nat (Attempts c)],
            tr @ concat (map (attempt_events env c cl req) [nat i ..< nat (Attempts c)]))"
  using assms
proof (induction n arbitrary: i checks tr)
  case 0
  then have "\<not> i < Attempts c" by simp
  moreover from 0 have "nat (Attempts c) \<le> nat i" by simp
  ultimately show ?case
    using 0 by (simp add: doChecks_loop_done)
next
  case (Suc n)
  let ?k = "nat i"
  let ?r = "attempt_record env c cl req ?k"
  from Suc.prems have lt: "i < Attempts c" by simp
  with Suc.prems have k: "?k < nat (Attempts c)" by simp
  with Suc.prems have kl: "?k < length checks" by simp
  from Suc.prems k have z: "checks ! ?k = \<lparr>RTT = 0, Error = ''''\<rparr>" by simp
  have n1: "nat (i + 1) = Suc ?k" using Suc.prems by simp
  have step: "doChecks_loop env c cl req i checks tr =
           doChecks_loop env c cl req (i + 1) (checks[?k := ?r])
             (tr @ attempt_events env c cl req ?k)"
    using lt Suc.prems(2) kl z by (rule doChecks_loop_step)
  have ih: "doChecks_loop env c cl req (i + 1) (checks[?k := ?r])
              (tr @ attempt_events env c cl req ?k) =
           (take (nat (i + 1)) (checks[?k := ?r])
              @ map (attempt_record env c cl req) [nat (i + 1) ..< nat (Attempts c)],
            (tr @ attempt_events env c cl req ?k)
              @ concat (map (attempt_events env c cl req) [nat (i + 1) ..< nat (Attempts c)]))"
  proof (rule Suc.IH)
    show "nat (Attempts c - (i + 1)) = n" using Suc.prems by simp
    show "0 \<le> i + 1" using Suc.prems by simp
    show "length (checks[?k := ?r]) = nat (Attempts c)" using Suc.prems by simp
    show "\<forall>j. nat (i + 1) \<le> j \<and> j < nat (Attempts c)
            \<longrightarrow> checks[?k := ?r] ! j = \<lparr>RTT = 0, Error = ''''\<rparr>"
      using Suc.prems n1 by simp
  qed
  have tk: "take (Suc ?k) (checks[?k := ?r]) = take ?k checks @ [?r]"
    using kl by (simp add: take_Suc_conv_app_nth)
  have up: "[?k ..< nat (Attempts c)] = ?k # [Suc ?k ..< nat (Attempts c)]"
    using k by (simp add: upt_conv_Cons)
  show ?case
    unfolding step ih n1 tk up by simp
qed

lemma doChecks_result:
  assumes "0 \<le> Attempts c" and "Client c = Some a"
  shows "doChecks env c st req =
           Some (map (attempt_record env c (st a) req) [0 ..< nat (Attempts c)],
                 concat (map (attempt_events env c (st a) req) [0 ..< nat (Attempts c)]))"
proof -
  have "doChecks_loop env c (st a) req 0
          (replicate (nat (Attempts c)) \<lparr>RTT = 0, Error = ''''\<rparr>) [] =
        (take (nat 0) (replicate (nat (Attempts c)) \<lparr>RTT = 0, Error = ''''\<rparr>)
           @ map (attempt_record env c (st a) req) [nat 0 ..< nat (Attempts c)],
         [] @ concat (map (attempt_events env c (st a) req) [nat 0 ..< nat (Attempts c)]))"
    by (rule doChecks_loop_result [OF refl]) simp_all
  then show ?thesis
    using assms by (simp add: doChecks_def)
qed

section \<open>The invocation: \<open>Check\<close>\<close>

lemma conclude_Times: "Times (conclude env c r) = Times r"
  by (simp add: conclude_def Let_def)

lemma conclude_cong:
  "ThresholdRTT c' = ThresholdRTT c \<Longrightarrow> conclude env c' r = conclude env c r"
  by (simp add: conclude_def Let_def)

lemma checkDown_cong:
  "UpStatus c' = UpStatus c \<Longrightarrow> MustContain c' = MustContain c
     \<Longrightarrow> MustNotContain c' = MustNotContain c \<Longrightarrow> checkDown c' = checkDown c"
  by (rule ext) (simp add: checkDown_def split: sum.splits)

lemma attempt_record_cong:
  "UpStatus c' = UpStatus c \<Longrightarrow> MustContain c' = MustContain c
     \<Longrightarrow> MustNotContain c' = MustNotContain c
     \<Longrightarrow> attempt_record env c' = attempt_record env c"
  by (intro ext) (simp add: attempt_record_def checkDown_cong [of c' c] split: sum.splits)

lemma attempt_events_cong:
  "AttemptSpacing c' = AttemptSpacing c \<Longrightarrow> attempt_events env c' = attempt_events env c"
  by (intro ext) (simp add: attempt_events_def split: sum.splits)

lemma Check_tlsConfig_cong:
  "TLSSkipVerify c' = TLSSkipVerify c \<Longrightarrow> TLSCAFile c' = TLSCAFile c
     \<Longrightarrow> Check_tlsConfig env c' = Check_tlsConfig env c"
  by (simp add: Check_tlsConfig_def Let_def split: prod.splits)

lemma Check_client_eq:
  "Check_client env c st =
     (case client_error env c of
        Some err \<Rightarrow> Inl err
      | None \<Rightarrow> Inr (c\<lparr>Client := Some (the_client c)\<rparr>, after_client env c st))"
proof (cases "Client c")
  case None
  have "Check_tlsConfig env (c\<lparr>Client := Some DefaultHTTPClient\<rparr>) = Check_tlsConfig env c"
    by (rule Check_tlsConfig_cong) simp_all
  with None show ?thesis
    by (simp add: Check_client_def client_error_def after_client_def the_client_def
          installed_def Clone_def Let_def split: sum.splits)
next
  case (Some a)
  then have "c\<lparr>Client := Some a\<rparr> = c" by simp
  with Some show ?thesis
    by (simp add: Check_client_def client_error_def after_client_def the_client_def)
qed

lemma prepared_fields:
  "Attempts (prepared c) = max 1 (Attempts c)"
  "Client (prepared c) = Some (the_client c)"
  "UpStatus (prepared c) = (if UpStatus c = 0 then 200 else UpStatus c)"
  "MustContain (prepared c) = MustContain c"
  "MustNotContain (prepared c) = MustNotContain c"
  "AttemptSpacing (prepared c) = AttemptSpacing c"
  "ThresholdRTT (prepared c) = ThresholdRTT c"
  "URL (prepared c) = URL c"
  "Headers (prepared c) = Headers c"
  by (simp_all add: prepared_def with_UpStatus_def)

lemma Check_eq:
  "Check env c st =
     (case client_error env c of
        Some err \<Rightarrow> (Return (started env c) (Some err), st, [])
      | None \<Rightarrow>
          (case ParseURL env (URL c) of
             Inl e \<Rightarrow> (Return (started env c) (Some (errNewRequest e)), after_client env c st, [])
           | Inr u \<Rightarrow>
               (case built_request env c u of
                  None \<Rightarrow> (Panic, after_client env c st, [])
                | Some req \<Rightarrow>
                    (Return (conclude env c
                       ((started env c)\<lparr>Times :=
                          map (attempt_record env (with_UpStatus c)
                                 (after_client env c st (the_client c)) req)
                            [0 ..< nat (max 1 (Attempts c))]\<rparr>)) None,
                     after_client env c st,
                     concat (map (attempt_events env c
                                    (after_client env c st (the_client c)) req)
                               [0 ..< nat (max 1 (Attempts c))])))))"
proof -
  define c1 where "c1 = (if Attempts c < 1 then c\<lparr>Attempts := 1\<rparr> else c)"
  define c2 where "c2 = c1\<lparr>Client := Some (the_client c)\<rparr>"
  define c3 where "c3 = (if UpStatus c2 = 0 then c2\<lparr>UpStatus := 200\<rparr> else c2)"
  have c3p: "c3 = prepared c"
    by (simp add: c3_def c2_def c1_def prepared_def with_UpStatus_def)
  have tl: "Check_tlsConfig env c1 = Check_tlsConfig env c"
    by (rule Check_tlsConfig_cong) (simp_all add: c1_def)
  have ce: "client_error env c1 = client_error env c"
    unfolding client_error_def tl by (simp add: c1_def)
  have ac: "after_client env c1 st = after_client env c st"
    unfolding after_client_def tl by (simp add: c1_def split: option.splits sum.splits)
  have tc: "the_client c1 = the_client c"
    by (simp add: the_client_def c1_def)
  have cl: "Check_client env c1 st =
     (case client_error env c of
        Some err \<Rightarrow> Inl err
      | None \<Rightarrow> Inr (c2, after_client env c st))"
    unfolding Check_client_eq [of env c1 st] ce ac tc c2_def ..
  have d: "doChecks env (prepared c) s req =
             Some (map (attempt_record env (with_UpStatus c) (s (the_client c)) req)
                     [0 ..< nat (max 1 (Attempts c))],
                   concat (map (attempt_events env c (s (the_client c)) req)
                     [0 ..< nat (max 1 (Attempts c))]))" for s req
  proof -
    have "attempt_record env (prepared c) = attempt_record env (with_UpStatus c)"
      by (rule attempt_record_cong) (simp_all add: prepared_fields with_UpStatus_def)
    moreover have "attempt_events env (prepared c) = attempt_events env c"
      by (rule attempt_events_cong) (simp add: prepared_fields)
    ultimately show ?thesis
      using doChecks_result [of "prepared c" "the_client c" env s req]
      by (simp add: prepared_fields)
  qed
  have k: "conclude env (prepared c) = conclude env c"
    by (rule ext) (rule conclude_cong, simp add: prepared_fields)
  show ?thesis
  proof (cases "client_error env c")
    case (Some err)
    then have "Check_client env c1 st = Inl err"
      using cl by simp
    then show ?thesis
      using Some
      by (simp only: Check_def Let_def c1_def [symmetric]) (simp add: started_def)
  next
    case None
    then have cl': "Check_client env c1 st = Inr (c2, after_client env c st)"
      using cl by simp
    show ?thesis
      apply (simp only: Check_def Let_def c1_def [symmetric])
      apply (simp only: cl' sum.case prod.case)
      apply (simp only: c3_def [symmetric] c3p)
      apply (simp add: None started_def NewRequest_def built_request_def prepared_fields d k
               Let_def split: option.splits sum.splits)
      done
  qed
qed

text \<open>
  The dialer parses the URL that \<open>http.NewRequest\<close> has parsed before it: once \<open>Check\<close>
  has built the request, the dialer never returns \<open>errParsingURL\<close>.
\<close>

lemma dial_after_NewRequest:
  "NewRequest env m (dial_URL d) = Inr req \<Longrightarrow> \<exists>x. dial env d = Inr x"
  by (auto simp: NewRequest_def dial_def Let_def split: sum.splits)

lemma upt3: "[0 ..< 3] = [0, Suc 0, 2]"
  by (simp add: upt_rec)

lemma Check_store: "fst (snd (Check env c st)) = after_client env c st"
  by (simp add: Check_eq client_error_def after_client_def
        split: option.splits sum.splits)

text \<open>
  A verdict of \<open>Check\<close> is what \<open>conclude\<close> makes of the started result with the attempts
  of \<open>doChecks\<close>; that result is unclassified when the fresh result is.
\<close>

lemma Check_verdict_is_conclude:
  assumes "Check env c st = (Return res None, st', tr)"
  shows "\<exists>checks. res = conclude env c ((started env c)\<lparr>Times := checks\<rparr>)"
  using assms by (auto simp: Check_eq split: option.splits sum.splits)

lemma unclassified_started:
  "unclassified (NewResult env) \<Longrightarrow> unclassified ((started env c)\<lparr>Times := checks\<rparr>)"
  by (simp add: unclassified_def started_def)

lemma client_error_cases:
  "client_error env c = Some err \<Longrightarrow> err = errReadingRootCert \<or> err = errParsingRootCert"
  by (auto simp: client_error_def Check_tlsConfig_def Let_def
        split: option.splits sum.splits if_splits prod.splits)

lemma Check_tlsConfig_CA:
  assumes "TLSCAFile c \<noteq> ''''" and "ReadFile env (TLSCAFile c) = (rootPEM, rerr)"
  shows "Check_tlsConfig env c =
           (if rerr \<noteq> None \<or> rootPEM = None then Inl errReadingRootCert
            else if decodePEM env (the rootPEM) = [] then Inl errParsingRootCert
            else Inr \<lparr>InsecureSkipVerify = TLSSkipVerify c,
                      RootCAs = Some ((case SystemCertPool env of None \<Rightarrow> [] | Some sys \<Rightarrow> sys)
                                        @ decodePEM env (the rootPEM))\<rparr>)"
  using assms
  by (simp add: Check_tlsConfig_def Let_def AppendCertsFromPEM_def NewCertPool_def
        split: option.splits)

lemma example_client_error: "client_error example_env example_checker = None"
  by (simp add: client_error_def example_checker_def Check_tlsConfig_def)

lemma example_Check:
  "fst (Check example_env example_checker example_store) = Return example_verdict None"
  apply (simp add: Check_eq example_client_error)
  apply (simp add: example_env_def example_checker_def built_request_def started_def
      fresh_result_def attempt_record_def checkDown_def with_UpStatus_def ok_response_def
      upt3 conclude_def median_stats_def example_verdict_def)
  done

text \<open>
  C4. Whenever \<open>Check\<close> returns a verdict (a result with the nil error), the verdict
  holds exactly \<open>N\<close> attempt records for an attempt count \<open>N\<close> of at least 1, and exactly
  one for a count below 1. Their order is the order of execution: the record at index
  \<open>k\<close> is the record of the \<open>k\<close>-th call of \<open>Do\<close>, whatever the outcome of any call.
\<close>

theorem Check_attempt_records:
  assumes "Check env c st = (Return res None, st', tr)"
  shows "length (Times res) = (if Attempts c < 1 then 1 else nat (Attempts c))
       \<and> (\<exists>req. Times res =
              map (attempt_record env (with_UpStatus c) (st' (the_client c)) req)
                [0 ..< length (Times res)])"
proof -
  have n: "nat (max 1 (Attempts c)) = (if Attempts c < 1 then 1 else nat (Attempts c))"
    by simp
  from assms have st': "st' = after_client env c st"
    using Check_store [of env c st] by simp
  from assms obtain req where
    "res = conclude env c ((started env c)\<lparr>Times :=
              map (attempt_record env (with_UpStatus c) (st' (the_client c)) req)
                [0 ..< nat (max 1 (Attempts c))]\<rparr>)"
    unfolding st' by (auto simp: Check_eq split: option.splits sum.splits)
  then have t: "Times res =
              map (attempt_record env (with_UpStatus c) (st' (the_client c)) req)
                [0 ..< nat (max 1 (Attempts c))]"
    by (simp add: conclude_Times)
  then have l: "length (Times res) = nat (max 1 (Attempts c))"
    by simp
  from t l n show ?thesis
    by metis
qed

theorem Check_attempt_records_witness:
  "fst (Check example_env example_checker example_store) = Return example_verdict None
   \<and> Attempts example_checker = 3
   \<and> length (Times example_verdict) = 3"
proof -
  obtain st' tr where
    c: "Check example_env example_checker example_store = (Return example_verdict None, st', tr)"
    using example_Check by (cases "Check example_env example_checker example_store") simp
  have a: "Attempts example_checker = 3"
    by (simp add: example_checker_def)
  show ?thesis
    using Check_attempt_records [OF c] example_Check a by simp
qed

text \<open>
  C5. When the target URL does not parse, \<open>Check\<close> returns an error: the error of
  \<open>http.NewRequest\<close>, unless the CA file already made it return its own
  configuration error. No request has been sent, and the result returned with the error
  is the fresh one with title and endpoint: no attempt record, no flag.
\<close>

theorem Check_malformed_URL:
  assumes "ParseURL env (URL c) = Inl e"
    and "Times (NewResult env) = []" and "unclassified (NewResult env)"
  shows "\<exists>res err. fst (Check env c st) = Return res (Some err)
           \<and> res = (NewResult env)\<lparr>Title := Name c, Endpoint := URL c\<rparr>
           \<and> err = (case client_error env c of Some err' \<Rightarrow> err' | None \<Rightarrow> errNewRequest e)
           \<and> (err = errReadingRootCert \<or> err = errParsingRootCert \<or> err = errNewRequest e)
           \<and> Times res = [] \<and> unclassified res
           \<and> snd (snd (Check env c st)) = []"
proof (cases "client_error env c")
  case None
  with assms show ?thesis
    by (simp add: Check_eq started_def unclassified_def)
next
  case (Some err)
  with assms client_error_cases [OF Some] show ?thesis
    by (auto simp: Check_eq started_def unclassified_def)
qed

theorem Check_malformed_URL_witness:
  "ParseURL example_env (URL bad_url_checker) = Inl ''invalid URL''
   \<and> fst (Check example_env bad_url_checker example_store)
       = Return (fresh_result\<lparr>Title := ''site'', Endpoint := ''https://exa mple.org''\<rparr>)
           (Some (errNewRequest ''invalid URL''))
   \<and> snd (snd (Check example_env bad_url_checker example_store)) = []"
proof -
  have p: "ParseURL example_env (URL bad_url_checker) = Inl ''invalid URL''"
    by (simp add: example_env_def bad_url_checker_def example_checker_def)
  have t: "Times (NewResult example_env) = []"
    by (simp add: example_env_def fresh_result_def)
  have u: "unclassified (NewResult example_env)"
    by (simp add: example_env_def fresh_result_def unclassified_def)
  have ce: "client_error example_env bad_url_checker = None"
    by (simp add: client_error_def bad_url_checker_def example_checker_def Check_tlsConfig_def)
  have n: "NewResult example_env = fresh_result" "Name bad_url_checker = ''site''"
    "URL bad_url_checker = ''https://exa mple.org''"
    by (simp_all add: example_env_def bad_url_checker_def example_checker_def)
  show ?thesis
    using p Check_malformed_URL [OF p t u, of example_store] by (simp add: ce n)
qed

text \<open>
  C7, as the code has it. With a positive spacing, \<open>doChecks\<close> sleeps once after each
  attempt whose request returned a response, right after closing the body. The final
  attempt is no exception: when it got a response, the last thing \<open>doChecks\<close> does is
  sleep. The equation gives the whole sequence of events, so it also shows the path of
  a transport error, which goes on to the next attempt without sleeping.
\<close>

theorem doChecks_sleeps:
  assumes "doChecks env c st req = Some (checks, tr)"
    and "Client c = Some a" and "0 < AttemptSpacing c"
  shows "tr = concat (map (\<lambda>k. case Do env k (st a) req of
                               Inl err \<Rightarrow> [EvDo k]
                             | Inr resp \<Rightarrow> [EvDo k, EvClose k, EvSleep (AttemptSpacing c)])
                       [0 ..< nat (Attempts c)])
       \<and> (\<forall>resp. 1 \<le> Attempts c \<and> Do env (nat (Attempts c) - 1) (st a) req = Inr resp
             \<longrightarrow> last tr = EvSleep (AttemptSpacing c))"
proof -
  let ?f = "\<lambda>k. case Do env k (st a) req of
                  Inl err \<Rightarrow> [EvDo k]
                | Inr resp \<Rightarrow> [EvDo k, EvClose k, EvSleep (AttemptSpacing c)]"
  let ?n = "nat (Attempts c)"
  from assms(1) have nn: "0 \<le> Attempts c"
    by (simp add: doChecks_def split: if_splits)
  have f: "attempt_events env c (st a) req = ?f"
    using assms(3) by (intro ext) (simp add: attempt_events_def split: sum.splits)
  from assms(1) have tr: "tr = concat (map ?f [0 ..< ?n])"
    unfolding doChecks_result [OF nn assms(2)] f by simp
  have "last tr = EvSleep (AttemptSpacing c)"
    if "1 \<le> Attempts c" and "Do env (?n - 1) (st a) req = Inr resp" for resp
  proof -
    from that(1) obtain m where m: "?n = Suc m"
      by (cases ?n) simp_all
    with that(2) have dm: "Do env m (st a) req = Inr resp"
      by simp
    have "tr = concat (map ?f [0 ..< m]) @ ?f m"
      unfolding tr m by simp
    also have "?f m = [EvDo m, EvClose m, EvSleep (AttemptSpacing c)]"
      by (simp add: dm)
    finally show ?thesis
      by simp
  qed
  with tr show ?thesis
    by blast
qed

theorem doChecks_sleeps_witness:
  "doChecks example_env spaced_checker example_store example_request
     = Some ([\<lparr>RTT = 50000000, Error = ''''\<rparr>], [EvDo 0, EvClose 0, EvSleep 1000000000])
   \<and> Client spaced_checker = Some DefaultHTTPClient
   \<and> 0 < AttemptSpacing spaced_checker
   \<and> last [EvDo 0, EvClose 0, EvSleep 1000000000] = EvSleep (AttemptSpacing spaced_checker)"
proof -
  have c: "Client spaced_checker = Some DefaultHTTPClient"
    by (simp add: spaced_checker_def)
  have s: "0 < AttemptSpacing spaced_checker"
    by (simp add: spaced_checker_def)
  have n: "0 \<le> Attempts spaced_checker" "nat (Attempts spaced_checker) = Suc 0"
    by (simp_all add: spaced_checker_def)
  have d: "doChecks example_env spaced_checker example_store example_request
     = Some ([\<lparr>RTT = 50000000, Error = ''''\<rparr>], [EvDo 0, EvClose 0, EvSleep 1000000000])"
    unfolding doChecks_result [OF n(1) c] n(2)
    by (simp add: attempt_record_def attempt_events_def example_env_def spaced_checker_def
          example_checker_def checkDown_def ok_response_def)
  have r: "1 \<le> Attempts spaced_checker
           \<and> Do example_env (nat (Attempts spaced_checker) - 1)
                (example_store DefaultHTTPClient) example_request = Inr ok_response"
    by (simp add: spaced_checker_def example_env_def)
  show ?thesis
    using doChecks_sleeps [OF d c s] c s d r by blast
qed

text \<open>
  C7 as stated fails: with one attempt and a spacing of one second, the single and
  final attempt is followed by a sleep of one second.
\<close>

theorem doChecks_final_sleep_counterexample:
  "Attempts spaced_checker = 1
   \<and> AttemptSpacing spaced_checker = 1000000000
   \<and> doChecks example_env spaced_checker example_store example_request
       = Some ([\<lparr>RTT = 50000000, Error = ''''\<rparr>], [EvDo 0, EvClose 0, EvSleep 1000000000])"
proof -
  have c: "Client spaced_checker = Some DefaultHTTPClient"
    by (simp add: spaced_checker_def)
  have n: "0 \<le> Attempts spaced_checker" "nat (Attempts spaced_checker) = Suc 0"
    by (simp_all add: spaced_checker_def)
  have d: "doChecks example_env spaced_checker example_store example_request
     = Some ([\<lparr>RTT = 50000000, Error = ''''\<rparr>], [EvDo 0, EvClose 0, EvSleep 1000000000])"
    unfolding doChecks_result [OF n(1) c] n(2)
    by (simp add: attempt_record_def attempt_events_def example_env_def spaced_checker_def
          example_checker_def checkDown_def ok_response_def)
  then show ?thesis
    by (simp add: spaced_checker_def)
qed

section \<open>The CA file and the shared client\<close>

text \<open>
  C6. For a checker with a CA file path and no client of its own. When the file cannot
  be read, or the read gives no data, \<open>Check\<close> returns \<open>errReadingRootCert\<close>. When the
  data holds no certificate (so for data of length zero too, as long as nothing decodes
  from it), \<open>Check\<close> returns \<open>errParsingRootCert\<close>, which is a different error. In both
  cases no request is sent and the result has no attempt record. When the data holds a
  certificate, the dialer that \<open>Check\<close> installs carries the pool that starts from the
  system pool, or from the empty pool when there is none, and ends with the certificates
  of the file.
\<close>

theorem Check_CA_file:
  assumes "Client c = None" and "TLSCAFile c \<noteq> ''''"
    and "ReadFile env (TLSCAFile c) = (rootPEM, rerr)"
    and "Times (NewResult env) = []"
  shows "(rerr \<noteq> None \<or> rootPEM = None \<longrightarrow>
            fst (Check env c st) = Return (started env c) (Some errReadingRootCert)
          \<and> snd (snd (Check env c st)) = [] \<and> Times (started env c) = [])
       \<and> (\<forall>pem. rerr = None \<and> rootPEM = Some pem \<and> decodePEM env pem = [] \<longrightarrow>
            fst (Check env c st) = Return (started env c) (Some errParsingRootCert)
          \<and> snd (snd (Check env c st)) = [] \<and> Times (started env c) = [])
       \<and> errParsingRootCert \<noteq> errReadingRootCert
       \<and> (\<forall>pem. rerr = None \<and> rootPEM = Some pem \<and> decodePEM env pem \<noteq> [] \<longrightarrow>
            DialTLS (Transport (fst (snd (Check env c st)) DefaultHTTPClient)) =
              Some \<lparr>dial_URL = URL c,
                    dial_tlsConfig =
                      \<lparr>InsecureSkipVerify = TLSSkipVerify c,
                       RootCAs = Some ((case SystemCertPool env of None \<Rightarrow> [] | Some sys \<Rightarrow> sys)
                                         @ decodePEM env pem)\<rparr>\<rparr>)"
proof -
  note cfg = Check_tlsConfig_CA [OF assms(2) assms(3)]
  have t: "Times (started env c) = []"
    using assms(4) by (simp add: started_def)
  have a: "fst (Check env c st) = Return (started env c) (Some errReadingRootCert)
          \<and> snd (snd (Check env c st)) = []"
    if "rerr \<noteq> None \<or> rootPEM = None"
  proof -
    from that have "client_error env c = Some errReadingRootCert"
      using assms(1) by (auto simp: client_error_def cfg)
    then show ?thesis
      by (simp add: Check_eq)
  qed
  have b: "fst (Check env c st) = Return (started env c) (Some errParsingRootCert)
          \<and> snd (snd (Check env c st)) = []"
    if "rerr = None" and "rootPEM = Some pem" and "decodePEM env pem = []" for pem
  proof -
    from that have "client_error env c = Some errParsingRootCert"
      using assms(1) by (simp add: client_error_def cfg)
    then show ?thesis
      by (simp add: Check_eq)
  qed
  have d: "DialTLS (Transport (fst (snd (Check env c st)) DefaultHTTPClient)) =
              Some \<lparr>dial_URL = URL c,
                    dial_tlsConfig =
                      \<lparr>InsecureSkipVerify = TLSSkipVerify c,
                       RootCAs = Some ((case SystemCertPool env of None \<Rightarrow> [] | Some sys \<Rightarrow> sys)
                                         @ decodePEM env pem)\<rparr>\<rparr>"
    if "rerr = None" and "rootPEM = Some pem" and "decodePEM env pem \<noteq> []" for pem
    using that assms(1) by (simp add: Check_store after_client_def cfg installed_def)
  from t a b d show ?thesis
    by simp
qed

lemma example_NewResult: "NewResult example_env = fresh_result"
  by (simp add: example_env_def)

lemma example_started:
  "started example_env (example_checker\<lparr>TLSCAFile := f\<rparr>)
     = fresh_result\<lparr>Title := ''site'', Endpoint := ''https://example.org''\<rparr>"
  by (simp add: started_def example_NewResult example_checker_def)

theorem Check_CA_file_witness:
  "fst (Check example_env missing_ca_checker example_store)
     = Return (fresh_result\<lparr>Title := ''site'', Endpoint := ''https://example.org''\<rparr>)
         (Some errReadingRootCert)
   \<and> fst (Check example_env junk_ca_checker example_store)
     = Return (fresh_result\<lparr>Title := ''site'', Endpoint := ''https://example.org''\<rparr>)
         (Some errParsingRootCert)
   \<and> DialTLS (Transport (fst (snd (Check example_env ca_checker example_store))
                 DefaultHTTPClient))
     = Some \<lparr>dial_URL = ''https://example.org'',
             dial_tlsConfig = \<lparr>InsecureSkipVerify = False, RootCAs = Some [''root'', ''ca'']\<rparr>\<rparr>"
proof -
  have t: "Times (NewResult example_env) = []"
    by (simp add: example_NewResult fresh_result_def)
  have m: "Client missing_ca_checker = None" "TLSCAFile missing_ca_checker \<noteq> ''''"
    "ReadFile example_env (TLSCAFile missing_ca_checker) = (None, Some ''no such file'')"
    by (simp_all add: missing_ca_checker_def example_checker_def example_env_def)
  have j: "Client junk_ca_checker = None" "TLSCAFile junk_ca_checker \<noteq> ''''"
    "ReadFile example_env (TLSCAFile junk_ca_checker) = (Some ''junk'', None)"
    by (simp_all add: junk_ca_checker_def example_checker_def example_env_def)
  have k: "Client ca_checker = None" "TLSCAFile ca_checker \<noteq> ''''"
    "ReadFile example_env (TLSCAFile ca_checker) = (Some ''PEM'', None)"
    by (simp_all add: ca_checker_def example_checker_def example_env_def)
  have e: "decodePEM example_env ''junk'' = []" "decodePEM example_env ''PEM'' = [''ca'']"
    "SystemCertPool example_env = Some [''root'']"
    by (simp_all add: example_env_def)
  have f: "URL ca_checker = ''https://example.org''" "TLSSkipVerify ca_checker = False"
    by (simp_all add: ca_checker_def example_checker_def)
  have 1: "fst (Check example_env missing_ca_checker example_store)
     = Return (fresh_result\<lparr>Title := ''site'', Endpoint := ''https://example.org''\<rparr>)
         (Some errReadingRootCert)"
    using Check_CA_file [OF m t, of example_store]
    by (simp add: missing_ca_checker_def example_started)
  have 2: "fst (Check example_env junk_ca_checker example_store)
     = Return (fresh_result\<lparr>Title := ''site'', Endpoint := ''https://example.org''\<rparr>)
         (Some errParsingRootCert)"
    using Check_CA_file [OF j t, of example_store]
    by (simp add: e junk_ca_checker_def example_started)
  have 3: "DialTLS (Transport (fst (snd (Check example_env ca_checker example_store))
                 DefaultHTTPClient))
     = Some \<lparr>dial_URL = ''https://example.org'',
             dial_tlsConfig = \<lparr>InsecureSkipVerify = False, RootCAs = Some [''root'', ''ca'']\<rparr>\<rparr>"
    using Check_CA_file [OF k t, of example_store]
    by (simp add: e f)
  from 1 2 3 show ?thesis
    by simp
qed

text \<open>
  C10 as stated fails: the checker has no client of its own and names a CA file that
  cannot be read; \<open>Check\<close> returns before it writes the transport, and the default client
  is what it was, without a dialer.
\<close>

theorem Check_default_client_unchanged_counterexample:
  "Client missing_ca_checker = None
   \<and> fst (snd (Check example_env missing_ca_checker example_store)) DefaultHTTPClient
       = example_store DefaultHTTPClient
   \<and> DialTLS (Transport (fst (snd (Check example_env missing_ca_checker example_store))
                  DefaultHTTPClient)) = None"
proof -
  have m: "TLSCAFile missing_ca_checker \<noteq> ''''"
    "ReadFile example_env (TLSCAFile missing_ca_checker) = (None, Some ''no such file'')"
    "Client missing_ca_checker = None"
    by (simp_all add: missing_ca_checker_def example_checker_def example_env_def)
  have "after_client example_env missing_ca_checker example_store = example_store"
    by (simp add: after_client_def m(3) Check_tlsConfig_CA [OF m(1) m(2)])
  then show ?thesis
    by (simp add: Check_store m(3)) (simp add: example_store_def DefaultHTTPClient_init_def)
qed

text \<open>
  C10, as the code has it. For a checker with no client of its own: when the TLS
  configuration is assembled without error, the checker's client becomes the shared
  default client, and \<open>Check\<close> leaves a store in which the transport of that shared
  object is the clone of its old transport carrying the dialer of this invocation (its
  URL and its TLS configuration), whatever \<open>Check\<close> does afterwards; when the CA file
  makes the assembly fail, \<open>Check\<close> leaves the store as it was.
\<close>

theorem Check_default_client_store:
  assumes "Client c = None"
  shows "(\<forall>cfg. Check_tlsConfig env c = Inr cfg \<longrightarrow>
            Check_client env c st
              = Inr (c\<lparr>Client := Some DefaultHTTPClient\<rparr>, fst (snd (Check env c st)))
          \<and> fst (snd (Check env c st))
              = st(DefaultHTTPClient :=
                     (st DefaultHTTPClient)\<lparr>Transport :=
                        (Clone (Transport (st DefaultHTTPClient)))\<lparr>DialTLS :=
                           Some \<lparr>dial_URL = URL c, dial_tlsConfig = cfg\<rparr>\<rparr>\<rparr>)
          \<and> DialTLS (Transport (fst (snd (Check env c st)) DefaultHTTPClient))
              = Some \<lparr>dial_URL = URL c, dial_tlsConfig = cfg\<rparr>)
       \<and> (\<forall>err. Check_tlsConfig env c = Inl err \<longrightarrow> fst (snd (Check env c st)) = st)"
  using assms
  by (simp add: Check_store after_client_def installed_def Clone_def Check_client_eq
        client_error_def the_client_def)

theorem Check_default_client_store_witness:
  "Client example_checker = None
   \<and> Check_tlsConfig example_env example_checker
       = Inr \<lparr>InsecureSkipVerify = False, RootCAs = None\<rparr>
   \<and> DialTLS (Transport (example_store DefaultHTTPClient)) = None
   \<and> DialTLS (Transport (fst (snd (Check example_env example_checker example_store))
                  DefaultHTTPClient))
       = Some \<lparr>dial_URL = ''https://example.org'',
               dial_tlsConfig = \<lparr>InsecureSkipVerify = False, RootCAs = None\<rparr>\<rparr>"
proof -
  have c: "Client example_checker = None"
    by (simp add: example_checker_def)
  have t: "Check_tlsConfig example_env example_checker
             = Inr \<lparr>InsecureSkipVerify = False, RootCAs = None\<rparr>"
    by (simp add: Check_tlsConfig_def example_checker_def)
  have u: "URL example_checker = ''https://example.org''"
    by (simp add: example_checker_def)
  have i: "DialTLS (Transport (example_store DefaultHTTPClient)) = None"
    by (simp add: example_store_def DefaultHTTPClient_init_def)
  show ?thesis
    using Check_default_client_store [OF c, of example_env example_store] c t u i
    by simp
qed

section \<open>The headers of the request\<close>

lemma Header_Add_grows:
  "h k = Some vs \<Longrightarrow> \<exists>vs'. Header_Add env h key v k = Some (vs @ vs')"
  by (auto simp: Header_Add_def Let_def)

lemma Header_Add_key:
  "\<exists>vs. Header_Add env h key v (CanonicalHeaderKey env key) = Some (vs @ [v])"
  by (cases "h (CanonicalHeaderKey env key)") (simp_all add: Header_Add_def Let_def)

lemma Check_headers_append:
  "Check_headers env (xs @ ys) req =
     (case Check_headers env xs req of None \<Rightarrow> None | Some r \<Rightarrow> Check_headers env ys r)"
  by (induction xs arbitrary: req) (auto simp: Let_def split: list.splits)

lemma Check_headers_grows:
  "Check_headers env hs req = Some r \<Longrightarrow> Header req k = Some vs
     \<Longrightarrow> \<exists>vs'. Header r k = Some (vs @ vs')"
proof (induction hs arbitrary: req vs)
  case Nil
  then show ?case by simp
next
  case (Cons x hs)
  obtain key header where x: "x = (key, header)"
    by (cases x)
  let ?h = "Header_Add env (Header req) key (Join header '', '')"
  from Cons.prems(2) obtain vs1 where h: "?h k = Some (vs @ vs1)"
    using Header_Add_grows by blast
  from Cons.prems(1) obtain req1 where
    r: "Check_headers env hs req1 = Some r" and h1: "Header req1 = ?h"
    unfolding x by (auto simp: Let_def split: if_splits list.splits)
  from Cons.IH [OF r] h h1 obtain vs2 where "Header r k = Some ((vs @ vs1) @ vs2)"
    by auto
  then show ?case
    by simp
qed

lemma Check_headers_no_host:
  "\<forall>(k, v)\<in>set hs. ToLower k \<noteq> ''host'' \<Longrightarrow> Check_headers env hs req = Some r
     \<Longrightarrow> Host r = Host req"
  by (induction hs arbitrary: req) (auto simp: Let_def)

text \<open>
  C8, as the code has it. When the loop over the headers ends without panic and visits
  a header whose name is \<open>host\<close> in lower case, with values \<open>h, hs\<close>, and no such header
  after it, then the host of the request is \<open>h\<close>, the first value, and the header mapping
  of the request holds the joined values of that header under its canonical name, as it
  does for every other header.
\<close>

theorem Check_headers_Host:
  assumes "Check_headers env (pre @ (key, h # hs) # post) req = Some req'"
    and "ToLower key = ''host''"
    and "\<forall>(k, v)\<in>set post. ToLower k \<noteq> ''host''"
  shows "Host req' = h
       \<and> (\<exists>before after. Header req' (CanonicalHeaderKey env key)
                            = Some (before @ [Join (h # hs) '', ''] @ after))"
proof -
  from assms(1) obtain r1 where
    r1: "Check_headers env pre req = Some r1"
    and r2: "Check_headers env ((key, h # hs) # post) r1 = Some req'"
    by (auto simp: Check_headers_append split: option.splits)
  let ?r = "r1\<lparr>Header := Header_Add env (Header r1) key (Join (h # hs) '', ''), Host := h\<rparr>"
  from r2 assms(2) have r3: "Check_headers env post ?r = Some req'"
    by (simp add: Let_def)
  from Check_headers_no_host [OF assms(3) r3] have host: "Host req' = h"
    by simp
  obtain before where "Header ?r (CanonicalHeaderKey env key)
                         = Some (before @ [Join (h # hs) '', ''])"
    using Header_Add_key [of env "Header r1" key "Join (h # hs) '', ''"] by auto
  from Check_headers_grows [OF r3 this] obtain after where
    "Header req' (CanonicalHeaderKey env key) = Some ((before @ [Join (h # hs) '', '']) @ after)"
    by blast
  with host show ?thesis
    by auto
qed

lemma ToLower_examples:
  "ToLower ''Accept'' \<noteq> ''host''" "ToLower ''hOsT'' = ''host''"
  "ToLower ''X-Probe'' \<noteq> ''host''" "ToLower ''Host'' = ''host''"
  by code_simp+

lemma example_canonical:
  "CanonicalHeaderKey example_env k = (if ToLower k = ''host'' then ''Host'' else k)"
  by (simp add: example_env_def)

theorem Check_headers_Host_witness:
  "Check_headers example_env
     ([(''Accept'', [''text/html''])] @ (''hOsT'', ''a.example'' # [''b.example''])
        # [(''X-Probe'', [''1''])]) example_request
     = Some (example_request\<lparr>Header := [''Accept'' \<mapsto> [''text/html''],
                                         ''Host'' \<mapsto> [''a.example, b.example''],
                                         ''X-Probe'' \<mapsto> [''1'']],
                             Host := ''a.example''\<rparr>)
   \<and> ToLower ''hOsT'' = ''host''
   \<and> ToLower ''X-Probe'' \<noteq> ''host''"
proof -
  have c: "Check_headers example_env
     ([(''Accept'', [''text/html''])] @ (''hOsT'', ''a.example'' # [''b.example''])
        # [(''X-Probe'', [''1''])]) example_request
     = Some (example_request\<lparr>Header := [''Accept'' \<mapsto> [''text/html''],
                                         ''Host'' \<mapsto> [''a.example, b.example''],
                                         ''X-Probe'' \<mapsto> [''1'']],
                             Host := ''a.example''\<rparr>)"
    by (simp add: ToLower_examples example_canonical Header_Add_def example_request_def)
  have p: "\<forall>(k, v)\<in>set [(''X-Probe'', [''1''])]. ToLower k \<noteq> ''host''"
    by (simp add: ToLower_examples)
  show ?thesis
    using Check_headers_Host [OF c ToLower_examples(2) p] c ToLower_examples by simp
qed

text \<open>
  C8 as stated fails: a header \<open>Host\<close> sets the host of the request and is added to the
  header mapping of the request as well.
\<close>

theorem Check_headers_Host_counterexample:
  "ToLower ''Host'' = ''host''
   \<and> Check_headers example_env [(''Host'', [''status.example.org''])] example_request
       = Some (example_request\<lparr>Header := [''Host'' \<mapsto> [''status.example.org'']],
                               Host := ''status.example.org''\<rparr>)
   \<and> [''Host'' \<mapsto> [''status.example.org'']] ''Host'' = Some [''status.example.org'']"
  by (simp add: ToLower_examples example_canonical Header_Add_def example_request_def)

end
